theory Spec2Isabelle
  imports Complex_Main "HOL-Library.Sublist"
begin

section \<open>Python values used by \<open>rag_backend.py\<close>\<close>

text \<open>
  A Python \<open>str\<close> is a sequence of Unicode code points, so a string is a list of
  naturals here and \<open>length\<close> counts what Python's \<open>len\<close> counts. Python's \<open>int\<close> is
  unbounded and becomes \<open>int\<close>. Python's \<open>float\<close> and numpy's \<open>float32\<close> are modelled as
  \<open>real\<close>: rounding, infinities and NaN are outside this development.
\<close>

type_synonym pystr = "nat list"

definition str :: "string \<Rightarrow> pystr" where
  "str s = map of_char s"

datatype error =
    ValueError
  | IndexError
  | External pystr

text \<open>
  The code points for which \<open>str.isspace\<close> holds; \<open>str.split()\<close> and \<open>str.strip()\<close>
  without arguments use exactly this set.
\<close>

definition is_space :: "nat \<Rightarrow> bool" where
  "is_space c \<longleftrightarrow>
     (9 \<le> c \<and> c \<le> 13) \<or> (28 \<le> c \<and> c \<le> 32) \<or> c = 133 \<or> c = 160 \<or> c = 5760 \<or>
     (8192 \<le> c \<and> c \<le> 8202) \<or> c = 8232 \<or> c = 8233 \<or> c = 8239 \<or> c = 8287 \<or> c = 12288"

text \<open>
  \<open>text.split()\<close>: skip a run of whitespace, stop at the end of the string, otherwise
  cut the maximal run of non-whitespace and go on behind it.
\<close>

function split_ws :: "pystr \<Rightarrow> pystr list" where
  "split_ws s =
     (case dropWhile is_space s of
        [] \<Rightarrow> []
      | c # cs \<Rightarrow>
          (c # takeWhile (\<lambda>x. \<not> is_space x) cs) # split_ws (dropWhile (\<lambda>x. \<not> is_space x) cs))"
  by pat_completeness auto
termination
proof (relation "measure length")
  show "wf (measure length)" by simp
next
  fix s :: pystr and c cs
  assume a: "dropWhile is_space s = c # cs"
  have "length (dropWhile (\<lambda>x. \<not> is_space x) cs) \<le> length cs"
    by (rule length_dropWhile_le)
  also have "length cs < length (dropWhile is_space s)"
    using a by simp
  also have "length (dropWhile is_space s) \<le> length s"
    by (rule length_dropWhile_le)
  finally show "(dropWhile (\<lambda>x. \<not> is_space x) cs, s) \<in> measure length"
    by simp
qed

declare split_ws.simps [simp del]

text \<open>\<open>sep.join(xs)\<close>.\<close>

fun join :: "pystr \<Rightarrow> pystr list \<Rightarrow> pystr" where
  "join sep [] = []"
| "join sep [x] = x"
| "join sep (x # y # ys) = x @ sep @ join sep (y # ys)"

text \<open>\<open>s.strip()\<close>: whitespace removed at both ends.\<close>

definition strip :: "pystr \<Rightarrow> pystr" where
  "strip s = rev (dropWhile is_space (rev (dropWhile is_space s)))"

text \<open>
  \<open>range(start, stop, step)\<close> as the list it iterates over. A zero step raises
  \<open>ValueError\<close>; the number of elements is CPython's.
\<close>

definition py_range :: "int \<Rightarrow> int \<Rightarrow> int \<Rightarrow> error + int list" where
  "py_range start stop step =
     (if step = 0 then Inl ValueError
      else if 0 < step then
        Inr (if start < stop
             then map (\<lambda>j. start + int j * step) [0..<nat (1 + (stop - 1 - start) div step)]
             else [])
      else
        Inr (if stop < start
             then map (\<lambda>j. start + int j * step) [0..<nat (1 + (start - 1 - stop) div (- step))]
             else []))"

text \<open>
  Slices. A negative bound counts from the end, and every bound is clamped to
  \<open>0 .. len\<close>; a slice never raises.
\<close>

definition slice_index :: "nat \<Rightarrow> int \<Rightarrow> nat" where
  "slice_index n i = (if i < 0 then nat (max 0 (int n + i)) else min n (nat i))"

definition py_slice :: "'a list \<Rightarrow> int \<Rightarrow> int \<Rightarrow> 'a list" where
  "py_slice xs i j = drop (slice_index (length xs) i) (take (slice_index (length xs) j) xs)"

definition py_slice_to :: "'a list \<Rightarrow> int \<Rightarrow> 'a list" where
  "py_slice_to xs k = take (slice_index (length xs) k) xs"

section \<open>The chunker\<close>

text \<open>
  \<open>chunk_text(text, words_per_chunk)\<close>. \<open>chunk_body\<close> is one pass through the body of
  the \<open>for\<close> loop, with the list \<open>chunks\<close> as the loop's state.
\<close>

definition chunk_body :: "pystr list \<Rightarrow> int \<Rightarrow> pystr list \<Rightarrow> int \<Rightarrow> pystr list" where
  "chunk_body words words_per_chunk chunks i =
     (let chunk = join [32] (py_slice words i (i + words_per_chunk))
      in if strip chunk \<noteq> [] then chunks @ [chunk] else chunks)"

definition chunk_text :: "pystr \<Rightarrow> int \<Rightarrow> error + pystr list" where
  "chunk_text text words_per_chunk =
     (let words = split_ws text
      in case py_range 0 (int (length words)) words_per_chunk of
           Inl e \<Rightarrow> Inl e
         | Inr idxs \<Rightarrow> Inr (foldl (chunk_body words words_per_chunk) [] idxs))"

text \<open>The default argument \<open>words_per_chunk = 350\<close>.\<close>

definition chunk_text_default :: "pystr \<Rightarrow> error + pystr list" where
  "chunk_text_default text = chunk_text text 350"

section \<open>Vectors and cosine similarity\<close>

type_synonym vec = "real list"

text \<open>\<open>np.linalg.norm\<close> of a one-dimensional array.\<close>

definition norm_vec :: "vec \<Rightarrow> real" where
  "norm_vec a = sqrt (sum_list (map (\<lambda>x. x * x) a))"

text \<open>\<open>a @ b\<close> on one-dimensional arrays; arrays of different sizes raise \<open>ValueError\<close>.\<close>

definition matmul :: "vec \<Rightarrow> vec \<Rightarrow> error + real" where
  "matmul a b =
     (if length a \<noteq> length b then Inl ValueError
      else Inr (sum_list (map (\<lambda>(x, y). x * y) (zip a b))))"

definition cosine_similarity :: "vec \<Rightarrow> vec \<Rightarrow> error + real" where
  "cosine_similarity a b =
     (if norm_vec a = 0 \<or> norm_vec b = 0 then Inr 0
      else case matmul a b of
             Inl e \<Rightarrow> Inl e
           | Inr d \<Rightarrow> Inr (d / (norm_vec a * norm_vec b)))"

section \<open>The external services\<close>

text \<open>
  The OpenAI client and the PDF reader are collaborators of the module. Each is a
  parameter of the functions that use it. The \<open>world\<close> records what the module has done
  so far: the requests sent to the embedding endpoint, the requests sent to the chat
  endpoint, and how often \<open>retrieve_relevant_chunks\<close> has been entered. A service
  answers from the world and the request, so its answers may depend on the history.
\<close>

record embed_request =
  embed_model :: pystr
  embed_input :: "pystr list"
  encoding_format :: pystr

record chat_request =
  chat_model :: pystr
  messages :: "(pystr \<times> pystr) list"
  temperature :: real

record world =
  embed_log :: "embed_request list"
  chat_log :: "chat_request list"
  retrieve_calls :: nat

text \<open>
  An embedding response is the list of the \<open>embedding\<close> fields of \<open>resp.data\<close>; a chat
  response is the list of the \<open>message.content\<close> fields of \<open>resp.choices\<close>.
\<close>

type_synonym embed_service = "world \<Rightarrow> embed_request \<Rightarrow> error + vec list"

type_synonym chat_service = "world \<Rightarrow> chat_request \<Rightarrow> error + pystr list"

definition CHAT_MODEL :: pystr where
  "CHAT_MODEL = str ''gpt-4o-mini''"

definition EMBED_MODEL :: pystr where
  "EMBED_MODEL = str ''text-embedding-3-small''"

definition embed_texts :: "embed_service \<Rightarrow> pystr list \<Rightarrow> world \<Rightarrow> (error + vec list) \<times> world" where
  "embed_texts client texts w =
     (if texts = [] then (Inr [], w)
      else
        let req = \<lparr>embed_model = EMBED_MODEL, embed_input = texts, encoding_format = str ''float''\<rparr>
        in (client w req, w\<lparr>embed_log := embed_log w @ [req]\<rparr>))"

section \<open>Reading a PDF\<close>

text \<open>
  \<open>page.extract_text()\<close> raises, returns \<open>None\<close> or returns a string. The reader itself
  may raise on the file.
\<close>

datatype extraction = Raises | Returns "pystr option"

type_synonym pdf_reader = "pystr \<Rightarrow> error + extraction list"

fun page_text :: "extraction \<Rightarrow> pystr" where
  "page_text Raises = []"
| "page_text (Returns None) = []"
| "page_text (Returns (Some t)) = t"

definition pdf_to_text :: "pdf_reader \<Rightarrow> pystr \<Rightarrow> error + pystr" where
  "pdf_to_text reader file_path =
     (case reader file_path of
        Inl e \<Rightarrow> Inl e
      | Inr pages \<Rightarrow> Inr (join [10, 10] (map page_text pages)))"

section \<open>Building the knowledge base\<close>

record kb_record =
  kb_text :: pystr
  kb_source :: pystr
  kb_embedding :: vec

text \<open>
  \<open>build_knowledge_base_from_paths\<close>: \<open>build_loop\<close> is the outer \<open>for\<close> loop with the list
  \<open>kb\<close> as its state; the inner loop appends one record for each pair of \<open>zip\<close>.
\<close>

definition make_record :: "pystr \<Rightarrow> pystr \<times> vec \<Rightarrow> kb_record" where
  "make_record path p = \<lparr>kb_text = fst p, kb_source = path, kb_embedding = snd p\<rparr>"

fun build_loop ::
  "pdf_reader \<Rightarrow> embed_service \<Rightarrow> kb_record list \<Rightarrow> pystr list \<Rightarrow> world
     \<Rightarrow> (error + kb_record list) \<times> world" where
  "build_loop reader client kb [] w = (Inr kb, w)"
| "build_loop reader client kb (path # paths) w =
     (case pdf_to_text reader path of
        Inl e \<Rightarrow> (Inl e, w)
      | Inr raw_text \<Rightarrow>
          (case chunk_text_default raw_text of
             Inl e \<Rightarrow> (Inl e, w)
           | Inr chunks \<Rightarrow>
               (case embed_texts client chunks w of
                  (Inl e, w') \<Rightarrow> (Inl e, w')
                | (Inr embeddings, w') \<Rightarrow>
                    build_loop reader client
                      (kb @ map (make_record path) (zip chunks embeddings)) paths w')))"

definition build_knowledge_base_from_paths ::
  "pdf_reader \<Rightarrow> embed_service \<Rightarrow> pystr list \<Rightarrow> world \<Rightarrow> (error + kb_record list) \<times> world" where
  "build_knowledge_base_from_paths reader client pdf_paths w =
     build_loop reader client [] pdf_paths w"

section \<open>Retrieval\<close>

text \<open>The loop that fills \<open>scored\<close>.\<close>

fun score_loop ::
  "vec \<Rightarrow> (real \<times> kb_record) list \<Rightarrow> kb_record list \<Rightarrow> error + (real \<times> kb_record) list" where
  "score_loop q_vec scored [] = Inr scored"
| "score_loop q_vec scored (item # items) =
     (case cosine_similarity q_vec (kb_embedding item) of
        Inl e \<Rightarrow> Inl e
      | Inr score \<Rightarrow> score_loop q_vec (scored @ [(score, item)]) items)"

text \<open>
  \<open>scored.sort(key=lambda x: x[0], reverse=True)\<close>. CPython reverses the list, sorts it
  with its stable ascending sort and reverses the result.
\<close>

definition sort_reverse :: "(real \<times> 'a) list \<Rightarrow> (real \<times> 'a) list" where
  "sort_reverse scored = rev (sort_key fst (rev scored))"

definition retrieve_relevant_chunks ::
  "embed_service \<Rightarrow> pystr \<Rightarrow> kb_record list \<Rightarrow> int \<Rightarrow> world \<Rightarrow> (error + kb_record list) \<times> world" where
  "retrieve_relevant_chunks client question kb k w0 =
     (let w = w0\<lparr>retrieve_calls := retrieve_calls w0 + 1\<rparr>
      in if kb = [] then (Inr [], w)
         else
           case embed_texts client [question] w of
             (Inl e, w') \<Rightarrow> (Inl e, w')
           | (Inr [], w') \<Rightarrow> (Inl IndexError, w')
           | (Inr (q_emb # _), w') \<Rightarrow>
               (case score_loop q_emb [] kb of
                  Inl e \<Rightarrow> (Inl e, w')
                | Inr scored \<Rightarrow> (Inr (map snd (py_slice_to (sort_reverse scored) k)), w')))"

section \<open>Feedback\<close>

text \<open>\<open>str(n)\<close> for a natural number, as the f-string prints \<open>i+1\<close>.\<close>

fun str_of_nat :: "nat \<Rightarrow> pystr" where
  "str_of_nat n = (if n < 10 then [48 + n] else str_of_nat (n div 10) @ [48 + n mod 10])"

declare str_of_nat.simps [simp del]

definition context_block :: "nat \<times> kb_record \<Rightarrow> pystr" where
  "context_block p =
     str ''[Source '' @ str_of_nat (fst p + 1) @ [32, 8211, 32] @ kb_source (snd p) @ str '']''
       @ [10] @ kb_text (snd p)"

definition no_kb_text :: pystr where
  "no_kb_text = str ''No PDF knowledge base is loaded.''"

definition context_text_of ::
  "embed_service \<Rightarrow> pystr \<Rightarrow> kb_record list \<Rightarrow> world \<Rightarrow> (error + pystr) \<times> world" where
  "context_text_of client question kb w =
     (if kb \<noteq> [] then
        case retrieve_relevant_chunks client question kb 5 w of
          (Inl e, w') \<Rightarrow> (Inl e, w')
        | (Inr top_chunks, w') \<Rightarrow>
            (Inr (join [10, 10] (map context_block (enumerate 0 top_chunks))), w')
      else (Inr no_kb_text, w))"

definition system_prompt :: pystr where
  "system_prompt =
     str ''You are BrighterText, a dyslexia-friendly reading tutor. ''
     @ str ''You give feedback on student answers.'' @ [10, 10]
     @ str ''Rules:'' @ [10]
     @ str ''- Use short sentences and simple words.'' @ [10]
     @ str ''- Always be encouraging.'' @ [10]
     @ str ''- First say what they did well.'' @ [10]
     @ str ''- Then gently explain what is missing or incorrect.'' @ [10]
     @ str ''- Show a short model answer.'' @ [10]
     @ str ''- End with one small practice suggestion.''"

definition user_prompt :: "pystr \<Rightarrow> pystr \<Rightarrow> pystr \<Rightarrow> pystr" where
  "user_prompt question student_answer context_text =
     str ''Question:'' @ [10] @ question @ [10, 10]
     @ str ''Student'' @ [39] @ str ''s answer:'' @ [10] @ student_answer @ [10, 10]
     @ str ''Context from teaching PDFs:'' @ [10] @ context_text @ [10, 10]
     @ str ''Give feedback following the rules above.''"

definition chat_request_of :: "pystr \<Rightarrow> pystr \<Rightarrow> pystr \<Rightarrow> chat_request" where
  "chat_request_of question student_answer context_text =
     \<lparr>chat_model = CHAT_MODEL,
      messages =
        [(str ''system'', system_prompt),
         (str ''user'', user_prompt question student_answer context_text)],
      temperature = 4 / 10\<rparr>"

text \<open>\<open>resp.choices[0].message.content\<close>.\<close>

fun first_choice :: "error + pystr list \<Rightarrow> error + pystr" where
  "first_choice (Inl e) = Inl e"
| "first_choice (Inr []) = Inl IndexError"
| "first_choice (Inr (c # cs)) = Inr c"

definition feedback_on_student_answer ::
  "embed_service \<Rightarrow> chat_service \<Rightarrow> pystr \<Rightarrow> pystr \<Rightarrow> kb_record list \<Rightarrow> world
     \<Rightarrow> (error + pystr) \<times> world" where
  "feedback_on_student_answer client chat question student_answer kb w =
     (case context_text_of client question kb w of
        (Inl e, w') \<Rightarrow> (Inl e, w')
      | (Inr context_text, w') \<Rightarrow>
          let req = chat_request_of question student_answer context_text
          in (first_choice (chat w' req), w'\<lparr>chat_log := chat_log w' @ [req]\<rparr>))"

section \<open>Splitting, joining and stripping\<close>

lemma split_ws_Nil: "split_ws [] = []"
  by (subst split_ws.simps) simp

lemma split_ws_space: "is_space c \<Longrightarrow> split_ws (c # s) = split_ws s"
  by (subst split_ws.simps, subst (2) split_ws.simps) simp

lemma split_ws_token:
  assumes "\<not> is_space c" and "\<forall>x\<in>set cs. \<not> is_space x"
  shows "split_ws (c # cs) = [c # cs]"
    and "split_ws (c # cs @ 32 # r) = (c # cs) # split_ws r"
proof -
  have sp: "is_space 32" by (simp add: is_space_def)
  have d: "dropWhile (\<lambda>x. \<not> is_space x) cs = []"
    using assms by simp
  have t: "takeWhile (\<lambda>x. \<not> is_space x) cs = cs"
    using assms by (simp add: takeWhile_eq_all_conv)
  show "split_ws (c # cs) = [c # cs]"
    using assms by (subst split_ws.simps) (simp add: split_ws_Nil d t)
  have "split_ws (c # cs @ 32 # r) = (c # cs) # split_ws (32 # r)"
    using assms sp by (subst split_ws.simps) (simp add: takeWhile_append2 dropWhile_append2)
  then show "split_ws (c # cs @ 32 # r) = (c # cs) # split_ws r"
    using sp by (simp add: split_ws_space)
qed

lemma split_ws_tokens: "t \<in> set (split_ws s) \<Longrightarrow> t \<noteq> [] \<and> (\<forall>x\<in>set t. \<not> is_space x)"
proof (induction s arbitrary: t rule: split_ws.induct)
  case (1 s)
  show ?case
  proof (cases "dropWhile is_space s")
    case Nil
    with "1.prems" show ?thesis by (subst (asm) split_ws.simps) simp
  next
    case (Cons c cs)
    then have c: "\<not> is_space c"
      by (metis hd_dropWhile list.sel(1) list.distinct(1))
    from "1.prems" Cons have "t = c # takeWhile (\<lambda>x. \<not> is_space x) cs
        \<or> t \<in> set (split_ws (dropWhile (\<lambda>x. \<not> is_space x) cs))"
      by (subst (asm) split_ws.simps) simp
    then show ?thesis
    proof
      assume "t = c # takeWhile (\<lambda>x. \<not> is_space x) cs"
      with c show ?thesis by (auto dest: set_takeWhileD)
    next
      assume "t \<in> set (split_ws (dropWhile (\<lambda>x. \<not> is_space x) cs))"
      with "1.IH" [OF Cons] show ?thesis by blast
    qed
  qed
qed

lemma split_ws_join:
  "\<forall>t\<in>set ts. t \<noteq> [] \<and> (\<forall>x\<in>set t. \<not> is_space x) \<Longrightarrow> split_ws (join [32] ts) = ts"
proof (induction "[32::nat]" ts rule: join.induct)
  case 1
  show ?case by (simp add: split_ws_Nil)
next
  case (2 x)
  then obtain c cs where "x = c # cs" by (cases x) auto
  with 2 show ?case by (simp add: split_ws_token(1))
next
  case (3 x y ys)
  then obtain c cs where x: "x = c # cs" by (cases x) auto
  with 3 have "split_ws (c # cs @ 32 # join [32] (y # ys)) = (c # cs) # split_ws (join [32] (y # ys))"
    by (intro split_ws_token(2)) auto
  with 3 x show ?case by simp
qed

lemma strip_eq_Nil: "strip s = [] \<longleftrightarrow> (\<forall>x\<in>set s. is_space x)"
proof
  assume "strip s = []"
  then have "\<forall>x\<in>set (dropWhile is_space s). is_space x"
    by (simp add: strip_def dropWhile_eq_Nil_conv)
  then have "dropWhile is_space s = []"
    by (metis hd_dropWhile hd_in_set)
  then show "\<forall>x\<in>set s. is_space x"
    by (simp add: dropWhile_eq_Nil_conv)
next
  assume "\<forall>x\<in>set s. is_space x"
  then have d: "dropWhile is_space s = []" by simp
  show "strip s = []" unfolding strip_def d by simp
qed

lemma strip_id: "s \<noteq> [] \<Longrightarrow> \<not> is_space (hd s) \<Longrightarrow> \<not> is_space (last s) \<Longrightarrow> strip s = s"
proof -
  assume a: "s \<noteq> []" "\<not> is_space (hd s)" "\<not> is_space (last s)"
  then have 1: "dropWhile is_space s = s" by (cases s) auto
  from a have "\<not> is_space (hd (rev s))" by (simp add: hd_rev)
  with a have "dropWhile is_space (rev s) = rev s" by (cases "rev s") auto
  with 1 show ?thesis by (simp add: strip_def)
qed

lemma join_neq_Nil: "ts \<noteq> [] \<Longrightarrow> last ts \<noteq> [] \<Longrightarrow> join sep ts \<noteq> []"
  by (induction sep ts rule: join.induct) auto

lemma hd_join: "x \<noteq> [] \<Longrightarrow> hd (join sep (x # xs)) = hd x"
  by (cases xs) auto

lemma last_join: "ts \<noteq> [] \<Longrightarrow> last ts \<noteq> [] \<Longrightarrow> last (join sep ts) = last (last ts)"
proof (induction sep ts rule: join.induct)
  case (3 sep x y ys)
  from "3.prems" have l: "last (y # ys) \<noteq> []" by simp
  then have "join sep (y # ys) \<noteq> []" by (intro join_neq_Nil) simp_all
  moreover from l have "last (join sep (y # ys)) = last (last (y # ys))"
    by (intro "3.IH") simp_all
  ultimately show ?case by simp
qed auto

lemma nat_range_count:
  assumes "0 < w" and "0 < n"
  shows "nat (1 + (int n - 1) div int w) = (n + w - 1) div w"
proof -
  from assms have e: "int n - 1 = int (n - 1)" by simp
  have "1 + (int n - 1) div int w = int (1 + (n - 1) div w)"
    unfolding e by (simp only: zdiv_int of_nat_add of_nat_1)
  then have "nat (1 + (int n - 1) div int w) = 1 + (n - 1) div w"
    by (simp only: nat_int)
  also have "\<dots> = (n + w - 1) div w"
  proof -
    from assms have "n + w - 1 = (n - 1) + w" by simp
    then have "(n + w - 1) div w = ((n - 1) + w) div w" by (simp only:)
    also have "\<dots> = (n - 1) div w + 1" using assms by (simp only: div_add_self2)
    finally show ?thesis by simp
  qed
  finally show ?thesis .
qed

lemma py_range_chunks:
  "0 < w \<Longrightarrow> py_range 0 (int n) (int w) = Inr (map (\<lambda>j. int (j * w)) [0..<(n + w - 1) div w])"
proof (cases "n = 0")
  case True
  assume "0 < w"
  then show ?thesis using True by (simp add: py_range_def)
next
  case False
  assume w: "0 < w"
  with False have c: "nat (1 + (int n - 1) div int w) = (n + w - 1) div w"
    by (intro nat_range_count) simp_all
  have "py_range 0 (int n) (int w) = Inr (map (\<lambda>j. 0 + int j * int w) [0..<nat (1 + (int n - 1 - 0) div int w)])"
    using w False unfolding py_range_def by simp
  also have "\<dots> = Inr (map (\<lambda>j. int (j * w)) [0..<(n + w - 1) div w])"
    using c by simp
  finally show ?thesis .
qed

lemma py_slice_window: "py_slice xs (int i) (int i + int w) = take w (drop i xs)"
proof -
  have "slice_index (length xs) (int i + int w) = min (length xs) (i + w)"
    by (simp add: slice_index_def nat_add_distrib)
  then show ?thesis
    by (cases "i \<le> length xs") (simp_all add: py_slice_def slice_index_def drop_take min_def)
qed

section \<open>Retrieval on an empty knowledge base\<close>

text \<open>
  Claim C6. For every query and every \<open>k\<close>, retrieval on an empty knowledge base returns
  the empty list and sends nothing to the embedding endpoint: the log of embedding
  requests is the one the call started with.
\<close>

theorem retrieve_empty_kb_no_embedding:
  "fst (retrieve_relevant_chunks client question [] k w) = Inr []
   \<and> embed_log (snd (retrieve_relevant_chunks client question [] k w)) = embed_log w"
  by (simp add: retrieve_relevant_chunks_def)

end
